theory Spec2Isabelle
  imports Complex_Main
begin

section \<open>JavaScript values as the code receives them\<close>

text \<open>
  The Tauri commands hand their answers to the TypeScript code as deserialised JSON, typed
  \<open>any\<close>. A value is therefore one of the JSON shapes, plus \<open>undefined\<close>, which is what
  reading a property that is not there gives. Numbers carry their numeric value (\<open>-0\<close> and
  \<open>0\<close> are both falsy and strictly equal, so they are one value here; JSON has no NaN).
  An object is the list of its own properties; \<open>map_of\<close> looks a property up.
\<close>

datatype jsvalue =
    JUndefined
  | JNull
  | JBool bool
  | JNum rat
  | JStr string
  | JArr "jsvalue list"
  | JObj "(string \<times> jsvalue) list"

text \<open>What a \<open>throw\<close> carries: an \<open>Error\<close> instance with its message (the ones the engine
  raises are \<open>TypeError\<close>s, their message texts are those of V8), or any other value, such as
  the string a rejected \<open>invoke\<close> promise carries.\<close>

datatype js_exn =
    JsError string
  | JsTypeError string
  | JsRejected jsvalue

text \<open>ToBoolean, as used by \<open>!x\<close>, \<open>x && y\<close>, \<open>x || y\<close> and \<open>filter\<close>.\<close>

fun truthy :: "jsvalue \<Rightarrow> bool" where
  "truthy JUndefined = False"
| "truthy JNull = False"
| "truthy (JBool b) = b"
| "truthy (JNum n) = (n \<noteq> 0)"
| "truthy (JStr s) = (s \<noteq> [])"
| "truthy (JArr xs) = True"
| "truthy (JObj fs) = True"

text \<open>\<open>a || b\<close>\<close>

definition js_or :: "jsvalue \<Rightarrow> jsvalue \<Rightarrow> jsvalue" where
  "js_or a b = (if truthy a then a else b)"

text \<open>\<open>x === y\<close>: primitives are compared by value, arrays and objects by identity. Every
  array or object compared in this program belongs to a different record of the parsed
  answer, so two of them are never the same reference.\<close>

fun strict_eq :: "jsvalue \<Rightarrow> jsvalue \<Rightarrow> bool" where
  "strict_eq (JArr xs) y = False"
| "strict_eq (JObj fs) y = False"
| "strict_eq x y = (x = y)"

fun nullish :: "jsvalue \<Rightarrow> bool" where
  "nullish JUndefined = True"
| "nullish JNull = True"
| "nullish v = False"

text \<open>\<open>v.k\<close> on a value that is not nullish, and \<open>v?.k\<close> on any value, for the property
  names the code reads (none of them is a built-in property of a string or an array): the own
  property of an object, \<open>undefined\<close> otherwise.\<close>

fun field :: "jsvalue \<Rightarrow> string \<Rightarrow> jsvalue" where
  "field (JObj fs) k = (case map_of fs k of Some v \<Rightarrow> v | None \<Rightarrow> JUndefined)"
| "field v k = JUndefined"

text \<open>\<open>Array.isArray(v)\<close>, and the elements of \<open>v\<close> when it is an array.\<close>

fun isArray :: "jsvalue \<Rightarrow> bool" where
  "isArray (JArr xs) = True"
| "isArray v = False"

fun elements :: "jsvalue \<Rightarrow> jsvalue list" where
  "elements (JArr xs) = xs"
| "elements v = []"

section \<open>The canonical endpoint record (\<open>SophosEndpoint\<close>)\<close>

text \<open>The interface declares strings and a boolean, but the values are copied from the
  untyped raw record, so at run time a field holds whatever the raw record held.\<close>

record os_t =
  os_name :: jsvalue
  os_version :: jsvalue

record health_t =
  overall :: jsvalue

record group_t =
  group_name :: jsvalue

record endpoint =
  id' :: jsvalue
  hostname :: jsvalue
  os :: os_t
  type' :: jsvalue
  online :: jsvalue
  health :: health_t
  group :: group_t
  ipAddresses :: "jsvalue list"
  lastSeen :: jsvalue

section \<open>Normalisation (\<open>fetchSophosEndpoints\<close>, the callback of \<open>rawEndpoints.map\<close>)\<close>

text \<open>\<open>x && Array.isArray(x) && x.length > 0\<close>\<close>

definition nonEmptyArray :: "jsvalue \<Rightarrow> bool" where
  "nonEmptyArray x = (truthy x \<and> isArray x \<and> length (elements x) > 0)"

text \<open>\<open>x && Array.isArray(x) ? x : []\<close>\<close>

definition arrayOrEmpty :: "jsvalue \<Rightarrow> jsvalue list" where
  "arrayOrEmpty x = (if truthy x \<and> isArray x then elements x else [])"

definition extractIpAddresses :: "jsvalue \<Rightarrow> jsvalue list" where
  "extractIpAddresses item =
     (if nonEmptyArray (field item ''ipAddresses'') then elements (field item ''ipAddresses'')
      else if nonEmptyArray (field item ''ip_addresses'') then elements (field item ''ip_addresses'')
      else
        (let ipv4 = arrayOrEmpty (field item ''ipv4Addresses'');
             ipv6 = arrayOrEmpty (field item ''ipv6Addresses'');
             ipv4Snake = arrayOrEmpty (field item ''ipv4_addresses'');
             ipv6Snake = arrayOrEmpty (field item ''ipv6_addresses'')
         in ipv4 @ ipv6 @ ipv4Snake @ ipv6Snake))"

text \<open>The callback reads \<open>item.ipAddresses\<close> first, which throws a \<open>TypeError\<close> when the
  item is \<open>null\<close> (or \<open>undefined\<close>); on every other value all reads succeed.\<close>

definition normalizeItem :: "jsvalue \<Rightarrow> js_exn + endpoint" where
  "normalizeItem item =
     (if nullish item then Inl (JsTypeError ''Cannot read properties of null (reading 'ipAddresses')'')
      else Inr \<lparr>
        id' = field item ''id'',
        hostname = js_or (field item ''hostname'') (JStr ''Unknown''),
        os = \<lparr> os_name = js_or (field (field item ''os'') ''name'') (JStr ''Unknown OS''),
               os_version = field (field item ''os'') ''version'' \<rparr>,
        type' = js_or (field item ''endpoint_type'') (JStr ''computer''),
        online = js_or (field item ''online'') (JBool False),
        health = \<lparr> overall = js_or (field (field item ''health'') ''overall'') (JStr ''unknown'') \<rparr>,
        group = \<lparr> group_name = js_or (field (field item ''group'') ''name'') (JStr ''No Group'') \<rparr>,
        ipAddresses = extractIpAddresses item,
        lastSeen = field item ''last_seen'' \<rparr>)"

text \<open>\<open>rawEndpoints.map\<close> runs the callback on the items in order; the first throw ends it.\<close>

fun normalizeAll :: "jsvalue list \<Rightarrow> js_exn + endpoint list" where
  "normalizeAll [] = Inr []"
| "normalizeAll (item # items) =
     (case normalizeItem item of
        Inl e \<Rightarrow> Inl e
      | Inr ep \<Rightarrow> (case normalizeAll items of Inl e \<Rightarrow> Inl e | Inr eps \<Rightarrow> Inr (ep # eps)))"

text \<open>The names of the properties the callback reads from \<open>item\<close> (lines 153 to 186), in the
  order of their first read.\<close>

definition readFields :: "string list" where
  "readFields = [''ipAddresses'', ''ip_addresses'', ''ipv4Addresses'', ''ipv6Addresses'',
     ''ipv4_addresses'', ''ipv6_addresses'', ''id'', ''hostname'', ''os'', ''endpoint_type'',
     ''online'', ''health'', ''group'', ''last_seen'']"

section \<open>The backend behind \<open>invoke\<close>, and the configuration\<close>

text \<open>
  What the code cannot see into: the value of the environment variable
  \<open>NEXT_PUBLIC_USE_MOCK_DATA\<close> (\<open>None\<close> when it is not set), the answer of each Tauri command
  (the promise resolves to a value or rejects with something thrown), and the clock read by
  \<open>new Date()\<close>. One fetch cycle invokes each command at most once.
\<close>

record environment =
  NEXT_PUBLIC_USE_MOCK_DATA :: "string option"
  load_sophos_credentials :: "js_exn + jsvalue"
  get_sophos_access_token :: "js_exn + jsvalue"
  fetch_sophos_endpoints :: "jsvalue \<Rightarrow> js_exn + jsvalue"
  now :: nat

text \<open>The commands invoked so far, oldest first, with the access token passed to the fetch.\<close>

datatype invocation =
    Invoke_load_sophos_credentials
  | Invoke_get_sophos_access_token
  | Invoke_fetch_sophos_endpoints jsvalue

definition loadSophosCredentials :: "environment \<Rightarrow> invocation list \<Rightarrow> jsvalue \<times> invocation list" where
  "loadSophosCredentials env tr =
     (case load_sophos_credentials env of
        Inr credentials \<Rightarrow> (credentials, tr @ [Invoke_load_sophos_credentials])
      | Inl err \<Rightarrow> (JNull, tr @ [Invoke_load_sophos_credentials]))"

definition getSophosAccessToken :: "environment \<Rightarrow> invocation list \<Rightarrow> jsvalue \<times> invocation list" where
  "getSophosAccessToken env tr =
     (case get_sophos_access_token env of
        Inr accessToken \<Rightarrow> (accessToken, tr @ [Invoke_get_sophos_access_token])
      | Inl err \<Rightarrow> (JNull, tr @ [Invoke_get_sophos_access_token]))"

text \<open>The debugging block on the first raw item only logs, except that
  \<open>Object.keys(firstItem)\<close> throws when that item is \<open>null\<close>.\<close>

definition debugFirstItem :: "jsvalue list \<Rightarrow> js_exn + unit" where
  "debugFirstItem rawEndpoints =
     (case rawEndpoints of
        [] \<Rightarrow> Inr ()
      | firstItem # rest \<Rightarrow>
          if nullish firstItem then Inl (JsTypeError ''Cannot convert undefined or null to object'')
          else Inr ())"

text \<open>\<open>fetchSophosEndpoints\<close>. The answer is declared \<open>any[]\<close>. When it is \<open>null\<close> (or
  \<open>undefined\<close>) the read of \<open>rawEndpoints.length\<close> throws; any other answer that is not an
  array has no \<open>map\<close> method (a JSON value holds no function), so the call throws there. (For
  an object answer with a \<open>length\<close> property the debugging block may run and throw first;
  that changes the text of the \<open>TypeError\<close> only.) The \<open>catch\<close> logs and rethrows.\<close>

definition fetchSophosEndpoints ::
  "environment \<Rightarrow> jsvalue \<Rightarrow> invocation list \<Rightarrow> (js_exn + endpoint list) \<times> invocation list" where
  "fetchSophosEndpoints env accessToken tr =
     (let tr' = tr @ [Invoke_fetch_sophos_endpoints accessToken] in
      case fetch_sophos_endpoints env accessToken of
        Inl err \<Rightarrow> (Inl err, tr')
      | Inr rawEndpoints \<Rightarrow>
          if rawEndpoints = JNull then
            (Inl (JsTypeError ''Cannot read properties of null (reading 'length')''), tr')
          else if rawEndpoints = JUndefined then
            (Inl (JsTypeError ''Cannot read properties of undefined (reading 'length')''), tr')
          else if isArray rawEndpoints then
            (case debugFirstItem (elements rawEndpoints) of
               Inl err \<Rightarrow> (Inl err, tr')
             | Inr u \<Rightarrow> (normalizeAll (elements rawEndpoints), tr'))
          else (Inl (JsTypeError ''rawEndpoints.map is not a function''), tr'))"

section \<open>\<open>getSophosEndpointData\<close>\<close>

datatype source_t = Api | Mock

record api_result =
  success :: bool
  data :: "endpoint list"
  source :: source_t
  error :: "string option"

definition mockEndpoints :: "endpoint list" where
  "mockEndpoints = [
     \<lparr> id' = JStr ''1'', hostname = JStr ''DESKTOP-ABC123'',
       os = \<lparr> os_name = JStr ''Windows 11'', os_version = JStr ''22H2'' \<rparr>,
       type' = JStr ''computer'', online = JBool True,
       health = \<lparr> overall = JStr ''good'' \<rparr>, group = \<lparr> group_name = JStr ''IT Department'' \<rparr>,
       ipAddresses = [JStr ''192.168.1.100''], lastSeen = JStr ''2024-01-15T10:30:00Z'' \<rparr>,
     \<lparr> id' = JStr ''2'', hostname = JStr ''LAPTOP-XYZ789'',
       os = \<lparr> os_name = JStr ''Windows 10'', os_version = JStr ''21H2'' \<rparr>,
       type' = JStr ''computer'', online = JBool False,
       health = \<lparr> overall = JStr ''warning'' \<rparr>, group = \<lparr> group_name = JStr ''Sales Team'' \<rparr>,
       ipAddresses = [JStr ''192.168.1.101''], lastSeen = JStr ''2024-01-14T16:45:00Z'' \<rparr>,
     \<lparr> id' = JStr ''3'', hostname = JStr ''MACBOOK-PRO-001'',
       os = \<lparr> os_name = JStr ''macOS'', os_version = JStr ''14.2'' \<rparr>,
       type' = JStr ''computer'', online = JBool True,
       health = \<lparr> overall = JStr ''good'' \<rparr>, group = \<lparr> group_name = JStr ''Design Team'' \<rparr>,
       ipAddresses = [JStr ''192.168.1.102''], lastSeen = JStr ''2024-01-15T11:00:00Z'' \<rparr>,
     \<lparr> id' = JStr ''4'', hostname = JStr ''SERVER-PROD-01'',
       os = \<lparr> os_name = JStr ''Windows Server 2022'', os_version = JUndefined \<rparr>,
       type' = JStr ''server'', online = JBool True,
       health = \<lparr> overall = JStr ''critical'' \<rparr>, group = \<lparr> group_name = JStr ''Production Servers'' \<rparr>,
       ipAddresses = [JStr ''192.168.1.50''], lastSeen = JStr ''2024-01-15T11:15:00Z'' \<rparr>,
     \<lparr> id' = JStr ''5'', hostname = JStr ''UBUNTU-DEV-01'',
       os = \<lparr> os_name = JStr ''Ubuntu'', os_version = JStr ''22.04'' \<rparr>,
       type' = JStr ''server'', online = JBool True,
       health = \<lparr> overall = JStr ''good'' \<rparr>, group = \<lparr> group_name = JStr ''Development'' \<rparr>,
       ipAddresses = [JStr ''192.168.1.51''], lastSeen = JStr ''2024-01-15T11:20:00Z'' \<rparr>,
     \<lparr> id' = JStr ''6'', hostname = JStr ''WORKSTATION-DESIGN'',
       os = \<lparr> os_name = JStr ''Windows 11'', os_version = JStr ''23H2'' \<rparr>,
       type' = JStr ''computer'', online = JBool True,
       health = \<lparr> overall = JStr ''good'' \<rparr>, group = \<lparr> group_name = JStr ''Design Team'' \<rparr>,
       ipAddresses = [JStr ''192.168.1.103''], lastSeen = JStr ''2024-01-15T11:25:00Z'' \<rparr>,
     \<lparr> id' = JStr ''7'', hostname = JStr ''LAPTOP-SALES-01'',
       os = \<lparr> os_name = JStr ''Windows 10'', os_version = JStr ''22H2'' \<rparr>,
       type' = JStr ''computer'', online = JBool False,
       health = \<lparr> overall = JStr ''warning'' \<rparr>, group = \<lparr> group_name = JStr ''Sales Team'' \<rparr>,
       ipAddresses = [JStr ''192.168.1.104''], lastSeen = JStr ''2024-01-13T14:20:00Z'' \<rparr>,
     \<lparr> id' = JStr ''8'', hostname = JStr ''SERVER-DB-01'',
       os = \<lparr> os_name = JStr ''Windows Server 2019'', os_version = JUndefined \<rparr>,
       type' = JStr ''server'', online = JBool True,
       health = \<lparr> overall = JStr ''good'' \<rparr>, group = \<lparr> group_name = JStr ''Production Servers'' \<rparr>,
       ipAddresses = [JStr ''192.168.1.52''], lastSeen = JStr ''2024-01-15T11:30:00Z'' \<rparr>,
     \<lparr> id' = JStr ''9'', hostname = JStr ''LAPTOP-HR-01'',
       os = \<lparr> os_name = JStr ''Windows 11'', os_version = JStr ''23H2'' \<rparr>,
       type' = JStr ''computer'', online = JBool True,
       health = \<lparr> overall = JStr ''good'' \<rparr>, group = \<lparr> group_name = JStr ''HR Department'' \<rparr>,
       ipAddresses = [JStr ''192.168.1.105''], lastSeen = JStr ''2024-01-15T11:35:00Z'' \<rparr>,
     \<lparr> id' = JStr ''10'', hostname = JStr ''IPHONE-SALES-02'',
       os = \<lparr> os_name = JStr ''iOS'', os_version = JStr ''17.2'' \<rparr>,
       type' = JStr ''mobile'', online = JBool True,
       health = \<lparr> overall = JStr ''good'' \<rparr>, group = \<lparr> group_name = JStr ''Sales Team'' \<rparr>,
       ipAddresses = [JStr ''192.168.1.106''], lastSeen = JStr ''2024-01-15T11:40:00Z'' \<rparr>
   ]"

text \<open>\<open>error instanceof Error ? error.message : 'Unknown error occurred ...'\<close>\<close>

fun catchMessage :: "js_exn \<Rightarrow> string" where
  "catchMessage (JsError m) = m"
| "catchMessage (JsTypeError m) = m"
| "catchMessage (JsRejected v) = ''Unknown error occurred while fetching from Sophos API''"

text \<open>The body of the \<open>try\<close> block: it returns a result or throws.\<close>

definition tryFetchFromApi :: "environment \<Rightarrow> invocation list \<Rightarrow> (js_exn + api_result) \<times> invocation list" where
  "tryFetchFromApi env tr =
     (case loadSophosCredentials env tr of (credentials, tr1) \<Rightarrow>
        if \<not> truthy credentials then
          (Inr \<lparr> success = True, data = mockEndpoints, source = Mock, error = None \<rparr>, tr1)
        else
          (case getSophosAccessToken env tr1 of (accessToken, tr2) \<Rightarrow>
             if \<not> truthy accessToken then
               (Inl (JsError ''Failed to obtain access token from Sophos Central''), tr2)
             else
               (case fetchSophosEndpoints env accessToken tr2 of
                  (Inl err, tr3) \<Rightarrow> (Inl err, tr3)
                | (Inr endpoints, tr3) \<Rightarrow>
                    (Inr \<lparr> success = True, data = endpoints, source = Api, error = None \<rparr>, tr3))))"

text \<open>The result is \<open>Inr\<close> when the function returns and \<open>Inl\<close> when it throws to its caller;
  the second component lists the commands it invoked.\<close>

definition getSophosEndpointData :: "environment \<Rightarrow> (js_exn + api_result) \<times> invocation list" where
  "getSophosEndpointData env =
     (let forceMockData = (NEXT_PUBLIC_USE_MOCK_DATA env = Some ''true'') in
      if forceMockData then
        (Inr \<lparr> success = True, data = mockEndpoints, source = Mock, error = None \<rparr>, [])
      else
        (case tryFetchFromApi env [] of
           (Inr result, tr) \<Rightarrow> (Inr result, tr)
         | (Inl err, tr) \<Rightarrow>
             (Inr \<lparr> success = False, data = mockEndpoints, source = Mock,
                    error = Some (catchMessage err) \<rparr>, tr)))"

section \<open>The dashboard page (\<open>fetchData\<close>)\<close>

record DashboardStats =
  totalEndpoints :: int
  onlineEndpoints :: int
  offlineEndpoints :: int
  healthyEndpoints :: int
  warningEndpoints :: int
  criticalEndpoints :: int

text \<open>The three frequency tables of the statistics (by OS name, type and group name) are keyed
  by the string conversion of arbitrary values; no property below is about them, and they are
  left out of the record.\<close>

text \<open>The state the page keeps with \<open>useState\<close>, as far as \<open>fetchData\<close> writes it.\<close>

record page_state =
  st_endpoints :: "endpoint list"
  st_stats :: "DashboardStats option"
  st_loading :: bool
  st_error :: "string option"
  st_lastUpdated :: "nat option"
  st_dataSource :: source_t

text \<open>A line written with \<open>console.warn\<close>: the id and the hostname it interpolates.\<close>

datatype warning = Duplicate_endpoint_found jsvalue jsvalue

text \<open>One step of the \<open>reduce\<close> that removes duplicates. \<open>acc.find\<close> gives an endpoint object
  (truthy) or \<open>undefined\<close>.\<close>

definition dedupStep :: "endpoint list \<times> warning list \<Rightarrow> endpoint \<Rightarrow> endpoint list \<times> warning list" where
  "dedupStep s endpoint =
     (case s of (acc, warns) \<Rightarrow>
        (case find (\<lambda>e. strict_eq (id' e) (id' endpoint)) acc of
           None \<Rightarrow> (acc @ [endpoint], warns)
         | Some existing \<Rightarrow>
             (acc, warns @ [Duplicate_endpoint_found (id' endpoint) (hostname endpoint)])))"

definition uniqueEndpoints :: "endpoint list \<Rightarrow> endpoint list \<times> warning list" where
  "uniqueEndpoints resultData = foldl dedupStep ([], []) resultData"

record healthCounts_t =
  healthy :: int
  warning :: int
  critical :: int

definition healthStep :: "healthCounts_t \<Rightarrow> endpoint \<Rightarrow> healthCounts_t" where
  "healthStep acc endpoint =
     (let h = overall (health endpoint) in
      if strict_eq h (JStr ''good'') then acc\<lparr> healthy := healthy acc + 1 \<rparr>
      else if strict_eq h (JStr ''warning'') then acc\<lparr> warning := warning acc + 1 \<rparr>
      else if strict_eq h (JStr ''critical'') then acc\<lparr> critical := critical acc + 1 \<rparr>
      else acc)"

definition healthCounts :: "endpoint list \<Rightarrow> healthCounts_t" where
  "healthCounts loadedEndpoints =
     foldl healthStep \<lparr> healthy = 0, warning = 0, critical = 0 \<rparr> loadedEndpoints"

text \<open>The block under \<open>// Calculate stats from the loaded endpoints\<close>, as a function of the
  list it names \<open>loadedEndpoints\<close>.\<close>

definition calculateStats :: "endpoint list \<Rightarrow> DashboardStats" where
  "calculateStats loadedEndpoints =
     (let total = int (length loadedEndpoints);
          onl = int (length (filter (\<lambda>e. truthy (online e)) loadedEndpoints));
          hc = healthCounts loadedEndpoints
      in \<lparr> totalEndpoints = total,
           onlineEndpoints = onl,
           offlineEndpoints = total - onl,
           healthyEndpoints = healthy hc,
           warningEndpoints = warning hc,
           criticalEndpoints = critical hc \<rparr>)"

text \<open>\<open>fetchData\<close>: the statistics are calculated from \<open>result.data\<close>, the displayed list is
  \<open>uniqueEndpoints\<close>. A result without success, or a throw, ends in the \<open>catch\<close>; \<open>finally\<close>
  clears the loading flag.\<close>

definition fetchData :: "environment \<Rightarrow> page_state \<Rightarrow> page_state \<times> warning list" where
  "fetchData env st =
     (let st1 = st\<lparr> st_loading := True, st_error := None \<rparr> in
      case fst (getSophosEndpointData env) of
        Inl err \<Rightarrow> (st1\<lparr> st_error := Some ''Failed to fetch endpoint data'', st_loading := False \<rparr>, [])
      | Inr result \<Rightarrow>
          if success result then
            (case uniqueEndpoints (data result) of (unique, warns) \<Rightarrow>
               (st1\<lparr> st_endpoints := unique,
                     st_lastUpdated := Some (now env),
                     st_dataSource := source result,
                     st_stats := Some (calculateStats (data result)),
                     st_loading := False \<rparr>, warns))
          else (st1\<lparr> st_error := Some ''Failed to fetch endpoint data'', st_loading := False \<rparr>, []))"

section \<open>First occurrences\<close>

text \<open>The record at position \<open>j\<close> of a list has an id that an earlier record of the list
  already carries.\<close>

definition seenBefore :: "endpoint list \<Rightarrow> nat \<Rightarrow> bool" where
  "seenBefore xs j = (\<exists>x\<in>set (take j xs). strict_eq (id' x) (id' (xs ! j)))"

section \<open>Concrete inputs\<close>

definition some_credentials :: jsvalue where
  "some_credentials = JObj [(''client_id'', JStr ''cid''), (''client_secret'', JStr ''secret''),
     (''tenant_id'', JStr ''tid''), (''region'', JStr ''us01'')]"

text \<open>Raw records: one with only the split address fields filled, one with nothing but an id,
  one whose fields are present but falsy.\<close>

definition split_ip_item :: jsvalue where
  "split_ip_item = JObj [(''id'', JStr ''e-1''), (''ipAddresses'', JArr []), (''ip_addresses'', JArr []),
     (''ipv4Addresses'', JArr [JStr ''10.0.0.1'']), (''ipv6Addresses'', JArr [JStr ''::1''])]"

definition bare_item :: jsvalue where
  "bare_item = JObj [(''id'', JStr ''e-2'')]"

text \<open>The record with nothing but an id again, as another answer might carry it: behind a
  vendor property that the normalisation does not read.\<close>

definition bare_item_extra :: jsvalue where
  "bare_item_extra = JObj [(''tamperProtectionEnabled'', JBool True), (''id'', JStr ''e-2'')]"

definition falsy_item :: jsvalue where
  "falsy_item = JObj [(''id'', JStr ''e-3''), (''hostname'', JStr ''''),
     (''os'', JObj [(''name'', JStr '''')]), (''group'', JObj [(''name'', JStr '''')]),
     (''endpoint_type'', JStr ''''), (''online'', JNum 0)]"

text \<open>An inventory in which two records share the id \<open>"42"\<close>, and its normalisation.\<close>

definition duplicate_raw :: "jsvalue list" where
  "duplicate_raw =
     [JObj [(''id'', JStr ''42''), (''hostname'', JStr ''HOST-A''), (''online'', JBool True)],
      JObj [(''id'', JStr ''42''), (''hostname'', JStr ''HOST-B''), (''online'', JBool True)]]"

definition duplicate_data :: "endpoint list" where
  "duplicate_data = [
     \<lparr> id' = JStr ''42'', hostname = JStr ''HOST-A'',
       os = \<lparr> os_name = JStr ''Unknown OS'', os_version = JUndefined \<rparr>,
       type' = JStr ''computer'', online = JBool True,
       health = \<lparr> overall = JStr ''unknown'' \<rparr>, group = \<lparr> group_name = JStr ''No Group'' \<rparr>,
       ipAddresses = [], lastSeen = JUndefined \<rparr>,
     \<lparr> id' = JStr ''42'', hostname = JStr ''HOST-B'',
       os = \<lparr> os_name = JStr ''Unknown OS'', os_version = JUndefined \<rparr>,
       type' = JStr ''computer'', online = JBool True,
       health = \<lparr> overall = JStr ''unknown'' \<rparr>, group = \<lparr> group_name = JStr ''No Group'' \<rparr>,
       ipAddresses = [], lastSeen = JUndefined \<rparr>
   ]"

text \<open>Environments: the flag forces mock data although credentials exist; the credential
  command rejects; it resolves to \<open>null\<close>; the token command rejects; the inventory command
  rejects; the inventory holds the duplicate.\<close>

definition forced_mock_env :: environment where
  "forced_mock_env = \<lparr> NEXT_PUBLIC_USE_MOCK_DATA = Some ''true'',
     load_sophos_credentials = Inr some_credentials,
     get_sophos_access_token = Inr (JStr ''token''),
     fetch_sophos_endpoints = (\<lambda>t. Inr (JArr [])),
     now = 0 \<rparr>"

definition no_credentials_env :: environment where
  "no_credentials_env = \<lparr> NEXT_PUBLIC_USE_MOCK_DATA = None,
     load_sophos_credentials = Inl (JsRejected (JStr ''Secrets file not found'')),
     get_sophos_access_token = Inl (JsRejected (JStr ''No credentials'')),
     fetch_sophos_endpoints = (\<lambda>t. Inl (JsRejected (JStr ''No credentials''))),
     now = 0 \<rparr>"

definition null_credentials_env :: environment where
  "null_credentials_env = \<lparr> NEXT_PUBLIC_USE_MOCK_DATA = Some ''false'',
     load_sophos_credentials = Inr JNull,
     get_sophos_access_token = Inr (JStr ''token''),
     fetch_sophos_endpoints = (\<lambda>t. Inr (JArr [])),
     now = 0 \<rparr>"

definition no_token_env :: environment where
  "no_token_env = \<lparr> NEXT_PUBLIC_USE_MOCK_DATA = None,
     load_sophos_credentials = Inr some_credentials,
     get_sophos_access_token = Inl (JsRejected (JStr ''Authentication failed: 401'')),
     fetch_sophos_endpoints = (\<lambda>t. Inr (JArr [])),
     now = 0 \<rparr>"

definition fetch_fails_env :: environment where
  "fetch_fails_env = \<lparr> NEXT_PUBLIC_USE_MOCK_DATA = None,
     load_sophos_credentials = Inr some_credentials,
     get_sophos_access_token = Inr (JStr ''token''),
     fetch_sophos_endpoints = (\<lambda>t. Inl (JsRejected (JStr ''API request failed: 500''))),
     now = 0 \<rparr>"

definition duplicate_env :: environment where
  "duplicate_env = \<lparr> NEXT_PUBLIC_USE_MOCK_DATA = None,
     load_sophos_credentials = Inr some_credentials,
     get_sophos_access_token = Inr (JStr ''token''),
     fetch_sophos_endpoints = (\<lambda>t. Inr (JArr duplicate_raw)),
     now = 0 \<rparr>"

text \<open>The page state before the first fetch, from the \<open>useState\<close> initial values.\<close>

definition initialState :: page_state where
  "initialState = \<lparr> st_endpoints = [], st_stats = None, st_loading = True, st_error = None,
     st_lastUpdated = None, st_dataSource = Mock \<rparr>"

section \<open>Auxiliary facts\<close>

subsection \<open>Values\<close>

lemma strict_eq_JStr: "strict_eq h (JStr s) = (h = JStr s)"
  by (cases h) auto

lemma strict_eq_trans: "strict_eq a b \<Longrightarrow> strict_eq b c \<Longrightarrow> strict_eq a c"
  by (cases a) auto

lemma isArray_JArr: "isArray v \<Longrightarrow> v = JArr (elements v)"
  by (cases v) auto

lemma nonEmptyArray_iff: "nonEmptyArray v = (\<exists>x xs. v = JArr (x # xs))"
  by (cases v) (auto simp: nonEmptyArray_def neq_Nil_conv)

lemma arrayOrEmpty_elements: "arrayOrEmpty v = elements v"
  by (cases v) (auto simp: arrayOrEmpty_def)

lemma js_or_falsy: "\<not> truthy v \<Longrightarrow> js_or v d = d"
  by (simp add: js_or_def)

lemma js_or_truthy: "truthy d \<Longrightarrow> truthy (js_or v d)"
  by (simp add: js_or_def)

lemma truthy_defined: "truthy v \<Longrightarrow> v \<noteq> JUndefined"
  by auto

lemma js_or_defined: "truthy d \<Longrightarrow> js_or v d \<noteq> JUndefined"
  using js_or_truthy truthy_defined by blast

subsection \<open>Normalisation\<close>

lemma normalizeItem_total: "\<not> nullish item \<Longrightarrow> \<exists>ep. normalizeItem item = Inr ep"
  by (simp add: normalizeItem_def)

lemma normalizeItem_fields:
  assumes "normalizeItem item = Inr ep"
  shows "hostname ep = js_or (field item ''hostname'') (JStr ''Unknown'')"
    and "os_name (os ep) = js_or (field (field item ''os'') ''name'') (JStr ''Unknown OS'')"
    and "type' ep = js_or (field item ''endpoint_type'') (JStr ''computer'')"
    and "online ep = js_or (field item ''online'') (JBool False)"
    and "overall (health ep) = js_or (field (field item ''health'') ''overall'') (JStr ''unknown'')"
    and "group_name (group ep) = js_or (field (field item ''group'') ''name'') (JStr ''No Group'')"
    and "ipAddresses ep = extractIpAddresses item"
proof -
  from assms have "\<not> nullish item" by (cases "nullish item") (simp_all add: normalizeItem_def)
  with assms show
    "hostname ep = js_or (field item ''hostname'') (JStr ''Unknown'')"
    "os_name (os ep) = js_or (field (field item ''os'') ''name'') (JStr ''Unknown OS'')"
    "type' ep = js_or (field item ''endpoint_type'') (JStr ''computer'')"
    "online ep = js_or (field item ''online'') (JBool False)"
    "overall (health ep) = js_or (field (field item ''health'') ''overall'') (JStr ''unknown'')"
    "group_name (group ep) = js_or (field (field item ''group'') ''name'') (JStr ''No Group'')"
    "ipAddresses ep = extractIpAddresses item"
    by (auto simp: normalizeItem_def)
qed

lemma normalizeAll_length:
  "normalizeAll items = Inr eps \<Longrightarrow> length eps = length items"
proof (induction items arbitrary: eps)
  case Nil
  then show ?case by simp
next
  case (Cons item items)
  then show ?case by (simp split: sum.splits) auto
qed

lemma normalizeAll_nth:
  "normalizeAll items = Inr eps \<Longrightarrow> i < length items \<Longrightarrow> normalizeItem (items ! i) = Inr (eps ! i)"
proof (induction items arbitrary: eps i)
  case Nil
  then show ?case by simp
next
  case (Cons item items)
  from Cons.prems(1) obtain ep eps' where
    a: "normalizeItem item = Inr ep" and b: "normalizeAll items = Inr eps'" and c: "eps = ep # eps'"
    by (auto split: sum.splits)
  show ?case
  proof (cases i)
    case 0
    then show ?thesis using a c by simp
  next
    case (Suc k)
    then show ?thesis using Cons.IH [OF b, of k] Cons.prems(2) c by simp
  qed
qed

lemma normalizeAll_total:
  "\<forall>item\<in>set items. \<not> nullish item \<Longrightarrow> \<exists>eps. normalizeAll items = Inr eps"
proof (induction items)
  case Nil
  then show ?case by simp
next
  case (Cons item items)
  then obtain ep eps where "normalizeItem item = Inr ep" "normalizeAll items = Inr eps"
    using normalizeItem_total [of item] by auto
  then show ?case by simp
qed

text \<open>The callback looks at nothing but the properties in \<open>readFields\<close>.\<close>

lemma normalizeItem_reads_only:
  assumes "\<not> nullish a" and "\<not> nullish b" and "\<forall>k\<in>set readFields. field a k = field b k"
  shows "normalizeItem a = normalizeItem b"
  using assms by (simp add: normalizeItem_def extractIpAddresses_def readFields_def)

lemma normalizeItem_id: "normalizeItem item = Inr ep \<Longrightarrow> id' ep = field item ''id''"
  by (cases "nullish item") (auto simp: normalizeItem_def)

lemma normalizeItem_not_nullish: "normalizeItem item = Inr ep \<Longrightarrow> \<not> nullish item"
  by (cases "nullish item") (simp_all add: normalizeItem_def)

subsection \<open>What the commands answer does not depend on the trace\<close>

lemma loadSophosCredentials_snd:
  "snd (loadSophosCredentials env tr) = tr @ [Invoke_load_sophos_credentials]"
  by (simp add: loadSophosCredentials_def split: sum.splits)

lemma getSophosAccessToken_fst:
  "fst (getSophosAccessToken env tr) = fst (getSophosAccessToken env [])"
  by (simp add: getSophosAccessToken_def split: sum.splits)

lemma fetchSophosEndpoints_fst:
  "fst (fetchSophosEndpoints env tok tr) = fst (fetchSophosEndpoints env tok [])"
  by (simp add: fetchSophosEndpoints_def Let_def split: sum.splits)

lemma fetchSophosEndpoints_Inr:
  assumes "fst (fetchSophosEndpoints env tok tr) = Inr eps"
  shows "\<exists>raw. fetch_sophos_endpoints env tok = Inr (JArr raw) \<and> normalizeAll raw = Inr eps"
proof (cases "fetch_sophos_endpoints env tok")
  case (Inl err)
  with assms show ?thesis by (simp add: fetchSophosEndpoints_def Let_def)
next
  case (Inr rawEndpoints)
  show ?thesis
  proof (cases "isArray rawEndpoints")
    case True
    then have r: "rawEndpoints = JArr (elements rawEndpoints)" by (rule isArray_JArr)
    from assms Inr True have "normalizeAll (elements rawEndpoints) = Inr eps"
      by (simp add: fetchSophosEndpoints_def Let_def split: sum.splits if_splits)
    with Inr r show ?thesis by metis
  next
    case False
    with assms Inr show ?thesis
      by (simp add: fetchSophosEndpoints_def Let_def split: if_splits)
  qed
qed

lemma api_data_is_normalization:
  assumes "fst (getSophosEndpointData env) = Inr result" and "source result = Api"
  shows "\<exists>raw. fetch_sophos_endpoints env (fst (getSophosAccessToken env [])) = Inr (JArr raw)
           \<and> normalizeAll raw = Inr (data result)"
proof -
  obtain c tr1 where l: "loadSophosCredentials env [] = (c, tr1)"
    by (cases "loadSophosCredentials env []")
  obtain a tr2 where t: "getSophosAccessToken env tr1 = (a, tr2)"
    by (cases "getSophosAccessToken env tr1")
  obtain r tr3 where f: "fetchSophosEndpoints env a tr2 = (r, tr3)"
    by (cases "fetchSophosEndpoints env a tr2")
  have a: "fst (getSophosAccessToken env []) = a"
    using getSophosAccessToken_fst [of env tr1] t by simp
  from assms l t f have "r = Inr (data result)"
    by (cases r) (auto simp: getSophosEndpointData_def tryFetchFromApi_def Let_def split: if_splits)
  with f have "fst (fetchSophosEndpoints env a tr2) = Inr (data result)" by simp
  from fetchSophosEndpoints_Inr [OF this] a show ?thesis by simp
qed

lemma duplicate_env_result:
  "fst (getSophosEndpointData duplicate_env) =
     Inr \<lparr> success = True, data = duplicate_data, source = Api, error = None \<rparr>"
  by (simp add: getSophosEndpointData_def tryFetchFromApi_def loadSophosCredentials_def
      getSophosAccessToken_def fetchSophosEndpoints_def debugFirstItem_def duplicate_env_def
      duplicate_raw_def duplicate_data_def some_credentials_def normalizeItem_def js_or_def
      extractIpAddresses_def nonEmptyArray_def arrayOrEmpty_def)

subsection \<open>Removing duplicates\<close>

lemma uniqueEndpoints_Nil: "uniqueEndpoints [] = ([], [])"
  by (simp add: uniqueEndpoints_def)

lemma uniqueEndpoints_snoc_step: "uniqueEndpoints (xs @ [e]) = dedupStep (uniqueEndpoints xs) e"
  by (simp add: uniqueEndpoints_def)

text \<open>The kept records stand for all records seen: an id matches a kept record exactly when
  it matches some record of the input.\<close>

lemma kept_represent_all:
  "(\<exists>u\<in>set (fst (uniqueEndpoints xs)). strict_eq (id' u) (id' e)) =
   (\<exists>x\<in>set xs. strict_eq (id' x) (id' e))"
proof (induction xs rule: rev_induct)
  case Nil
  then show ?case by (simp add: uniqueEndpoints_Nil)
next
  case (snoc y xs)
  obtain acc ws where u: "uniqueEndpoints xs = (acc, ws)" by (cases "uniqueEndpoints xs")
  show ?case
  proof (cases "find (\<lambda>x. strict_eq (id' x) (id' y)) acc")
    case None
    then have "fst (uniqueEndpoints (xs @ [y])) = acc @ [y]"
      by (simp add: uniqueEndpoints_snoc_step u dedupStep_def)
    then show ?thesis using snoc.IH u by auto
  next
    case (Some existing)
    then have acc: "fst (uniqueEndpoints (xs @ [y])) = acc"
      by (simp add: uniqueEndpoints_snoc_step u dedupStep_def)
    from Some have "\<exists>x\<in>set acc. strict_eq (id' x) (id' y)"
      by (metis find_None_iff option.distinct(1))
    then obtain x where x: "x \<in> set acc" "strict_eq (id' x) (id' y)" by blast
    have "strict_eq (id' y) (id' e) \<Longrightarrow> \<exists>u\<in>set acc. strict_eq (id' u) (id' e)"
      using x strict_eq_trans by blast
    then show ?thesis using snoc.IH u acc by auto
  qed
qed

lemma uniqueEndpoints_snoc:
  "uniqueEndpoints (xs @ [e]) =
     (if \<exists>x\<in>set xs. strict_eq (id' x) (id' e)
      then (fst (uniqueEndpoints xs),
            snd (uniqueEndpoints xs) @ [Duplicate_endpoint_found (id' e) (hostname e)])
      else (fst (uniqueEndpoints xs) @ [e], snd (uniqueEndpoints xs)))"
proof -
  obtain acc ws where u: "uniqueEndpoints xs = (acc, ws)" by (cases "uniqueEndpoints xs")
  have k: "(\<exists>u\<in>set acc. strict_eq (id' u) (id' e)) = (\<exists>x\<in>set xs. strict_eq (id' x) (id' e))"
    using kept_represent_all [of xs e] u by simp
  show ?thesis
  proof (cases "find (\<lambda>x. strict_eq (id' x) (id' e)) acc")
    case None
    then have "\<not> (\<exists>u\<in>set acc. strict_eq (id' u) (id' e))" by (simp add: find_None_iff)
    with k None show ?thesis by (simp add: uniqueEndpoints_snoc_step u dedupStep_def)
  next
    case (Some existing)
    then have "\<exists>u\<in>set acc. strict_eq (id' u) (id' e)" by (metis find_None_iff option.distinct(1))
    with k Some show ?thesis by (simp add: uniqueEndpoints_snoc_step u dedupStep_def)
  qed
qed

lemma uniqueEndpoints_subset: "set (fst (uniqueEndpoints xs)) \<subseteq> set xs"
  by (induction xs rule: rev_induct) (auto simp: uniqueEndpoints_Nil uniqueEndpoints_snoc)

lemma uniqueEndpoints_distinct_ids:
  "i < j \<Longrightarrow> j < length (fst (uniqueEndpoints xs)) \<Longrightarrow>
   \<not> strict_eq (id' (fst (uniqueEndpoints xs) ! i)) (id' (fst (uniqueEndpoints xs) ! j))"
proof (induction xs arbitrary: i j rule: rev_induct)
  case Nil
  then show ?case by (simp add: uniqueEndpoints_Nil)
next
  case (snoc e xs)
  let ?u = "fst (uniqueEndpoints xs)"
  show ?case
  proof (cases "\<exists>x\<in>set xs. strict_eq (id' x) (id' e)")
    case True
    then have "fst (uniqueEndpoints (xs @ [e])) = ?u" by (simp add: uniqueEndpoints_snoc)
    then show ?thesis using snoc by simp
  next
    case False
    then have eq: "fst (uniqueEndpoints (xs @ [e])) = ?u @ [e]" by (simp add: uniqueEndpoints_snoc)
    show ?thesis
    proof (cases "j < length ?u")
      case True
      then show ?thesis using snoc.IH [of i j] snoc.prems(1) eq by (simp add: nth_append)
    next
      case False
      with snoc.prems eq have j: "j = length ?u" by simp
      with snoc.prems(1) have "?u ! i \<in> set ?u" by simp
      then have "?u ! i \<in> set xs" using uniqueEndpoints_subset by blast
      with \<open>\<not> (\<exists>x\<in>set xs. strict_eq (id' x) (id' e))\<close>
      have "\<not> strict_eq (id' (?u ! i)) (id' e)" by blast
      then show ?thesis using eq j snoc.prems(1) by (simp add: nth_append)
    qed
  qed
qed

lemma seenBefore_old: "j < length xs \<Longrightarrow> seenBefore (xs @ [e]) j = seenBefore xs j"
  by (simp add: seenBefore_def nth_append)

lemma seenBefore_last: "seenBefore (xs @ [e]) (length xs) = (\<exists>x\<in>set xs. strict_eq (id' x) (id' e))"
  by (simp add: seenBefore_def)

lemma uniqueEndpoints_first_occurrences:
  "fst (uniqueEndpoints xs) = map (nth xs) (filter (\<lambda>j. \<not> seenBefore xs j) [0..<length xs])
   \<and> snd (uniqueEndpoints xs) =
     map (\<lambda>j. Duplicate_endpoint_found (id' (xs ! j)) (hostname (xs ! j)))
       (filter (seenBefore xs) [0..<length xs])"
proof (induction xs rule: rev_induct)
  case Nil
  then show ?case by (simp add: uniqueEndpoints_Nil)
next
  case (snoc e xs)
  let ?ys = "xs @ [e]"
  have f1: "filter (\<lambda>j. \<not> seenBefore ?ys j) [0..<length xs] = filter (\<lambda>j. \<not> seenBefore xs j) [0..<length xs]"
    by (rule filter_cong) (simp_all add: seenBefore_old)
  have f2: "filter (seenBefore ?ys) [0..<length xs] = filter (seenBefore xs) [0..<length xs]"
    by (rule filter_cong) (simp_all add: seenBefore_old)
  have m1: "map (nth ?ys) (filter (\<lambda>j. \<not> seenBefore xs j) [0..<length xs])
          = map (nth xs) (filter (\<lambda>j. \<not> seenBefore xs j) [0..<length xs])"
    by (rule map_cong) (auto simp: nth_append)
  have m2: "map (\<lambda>j. Duplicate_endpoint_found (id' (?ys ! j)) (hostname (?ys ! j)))
              (filter (seenBefore xs) [0..<length xs])
          = map (\<lambda>j. Duplicate_endpoint_found (id' (xs ! j)) (hostname (xs ! j)))
              (filter (seenBefore xs) [0..<length xs])"
    by (rule map_cong) (auto simp: nth_append)
  have upt: "[0..<length ?ys] = [0..<length xs] @ [length xs]" by simp
  show ?case
  proof (cases "\<exists>x\<in>set xs. strict_eq (id' x) (id' e)")
    case True
    then have l: "seenBefore ?ys (length xs)" by (simp only: seenBefore_last)
    have k: "filter (\<lambda>j. \<not> seenBefore ?ys j) [0..<length ?ys] = filter (\<lambda>j. \<not> seenBefore xs j) [0..<length xs]"
      unfolding upt filter_append f1 using l by simp
    have d: "filter (seenBefore ?ys) [0..<length ?ys] = filter (seenBefore xs) [0..<length xs] @ [length xs]"
      unfolding upt filter_append f2 using l by simp
    show ?thesis unfolding k d using True snoc.IH
      by (simp add: uniqueEndpoints_snoc m1 m2)
  next
    case False
    then have l: "\<not> seenBefore ?ys (length xs)" by (simp only: seenBefore_last not_False_eq_True)
    have k: "filter (\<lambda>j. \<not> seenBefore ?ys j) [0..<length ?ys] = filter (\<lambda>j. \<not> seenBefore xs j) [0..<length xs] @ [length xs]"
      unfolding upt filter_append f1 using l by simp
    have d: "filter (seenBefore ?ys) [0..<length ?ys] = filter (seenBefore xs) [0..<length xs]"
      unfolding upt filter_append f2 using l by simp
    show ?thesis unfolding k d using False snoc.IH
      by (simp add: uniqueEndpoints_snoc m1 m2)
  qed
qed

lemma fetchData_success:
  assumes "fst (getSophosEndpointData env) = Inr result" and "success result"
  shows "st_endpoints (fst (fetchData env st)) = fst (uniqueEndpoints (data result))"
    and "snd (fetchData env st) = snd (uniqueEndpoints (data result))"
    and "st_stats (fst (fetchData env st)) = Some (calculateStats (data result))"
  using assms by (simp_all add: fetchData_def Let_def split: prod.splits)

subsection \<open>Counting\<close>

lemma healthCounts_foldl:
  "healthy (foldl healthStep acc xs) = healthy acc + int (length (filter (\<lambda>e. overall (health e) = JStr ''good'') xs)) \<and>
   warning (foldl healthStep acc xs) = warning acc + int (length (filter (\<lambda>e. overall (health e) = JStr ''warning'') xs)) \<and>
   critical (foldl healthStep acc xs) = critical acc + int (length (filter (\<lambda>e. overall (health e) = JStr ''critical'') xs))"
  by (induction xs arbitrary: acc) (auto simp: healthStep_def Let_def strict_eq_JStr)

lemma bucket_partition:
  "length (filter (\<lambda>e. overall (health e) = JStr ''good'') xs)
   + length (filter (\<lambda>e. overall (health e) = JStr ''warning'') xs)
   + length (filter (\<lambda>e. overall (health e) = JStr ''critical'') xs)
   + length (filter (\<lambda>e. overall (health e) \<notin> {JStr ''good'', JStr ''warning'', JStr ''critical''}) xs)
   = length xs"
  by (induction xs) auto

lemma filter_pos: "(0 < length (filter P xs)) = (\<exists>x\<in>set xs. P x)"
  by (simp add: filter_empty_conv)

text \<open>On the list they are calculated from, the three counts are the length, the number of
  records with a truthy \<open>online\<close>, and the difference.\<close>

lemma calculateStats_counts:
  "totalEndpoints (calculateStats xs) = int (length xs) \<and>
   onlineEndpoints (calculateStats xs) = int (length (filter (\<lambda>e. truthy (online e)) xs)) \<and>
   offlineEndpoints (calculateStats xs) = int (length xs) - int (length (filter (\<lambda>e. truthy (online e)) xs))"
  by (simp add: calculateStats_def Let_def)

section \<open>The claims\<close>

subsection \<open>C1: missing credentials\<close>

text \<open>
  C1 as stated fails. With the force-mock flag unset and a credential command that rejects,
  \<open>loadSophosCredentials\<close> returns \<open>null\<close> and \<open>getSophosEndpointData\<close> returns the mock
  dataset with \<open>success = true\<close> and no \<open>error\<close>, where the claim asks for
  \<open>success = false\<close> and a message.
\<close>

theorem missing_credentials_counterexample:
  "NEXT_PUBLIC_USE_MOCK_DATA no_credentials_env \<noteq> Some ''true'' \<and>
   fst (loadSophosCredentials no_credentials_env []) = JNull \<and>
   fst (getSophosEndpointData no_credentials_env) =
     Inr \<lparr> success = True, data = mockEndpoints, source = Mock, error = None \<rparr>"
  by (simp add: no_credentials_env_def loadSophosCredentials_def getSophosEndpointData_def
      tryFetchFromApi_def)

text \<open>
  C1, amended: for every call to \<open>getSophosEndpointData\<close> with the force-mock flag unset, if
  loading credentials returns \<open>null\<close>, the function returns (it does not throw) the fixed mock
  dataset with \<open>success = true\<close>, \<open>source = "mock"\<close> and no \<open>error\<close>, having invoked the
  credential command only.
\<close>

theorem missing_credentials_mock:
  assumes "NEXT_PUBLIC_USE_MOCK_DATA env \<noteq> Some ''true''"
    and "fst (loadSophosCredentials env []) = JNull"
  shows "getSophosEndpointData env =
           (Inr \<lparr> success = True, data = mockEndpoints, source = Mock, error = None \<rparr>,
            [Invoke_load_sophos_credentials])"
proof -
  obtain c tr where l: "loadSophosCredentials env [] = (c, tr)"
    by (cases "loadSophosCredentials env []")
  with assms(2) have c: "c = JNull" by simp
  from l loadSophosCredentials_snd [of env "[]"] have tr: "tr = [Invoke_load_sophos_credentials]"
    by simp
  show ?thesis using assms(1) l c tr
    by (simp add: getSophosEndpointData_def tryFetchFromApi_def)
qed

theorem missing_credentials_mock_witness:
  "NEXT_PUBLIC_USE_MOCK_DATA null_credentials_env \<noteq> Some ''true'' \<and>
   fst (loadSophosCredentials null_credentials_env []) = JNull \<and>
   getSophosEndpointData null_credentials_env =
     (Inr \<lparr> success = True, data = mockEndpoints, source = Mock, error = None \<rparr>,
      [Invoke_load_sophos_credentials])"
proof -
  have flag: "NEXT_PUBLIC_USE_MOCK_DATA null_credentials_env \<noteq> Some ''true''"
    by (simp add: null_credentials_env_def)
  have null: "fst (loadSophosCredentials null_credentials_env []) = JNull"
    by (simp add: null_credentials_env_def loadSophosCredentials_def)
  from missing_credentials_mock [OF flag null] flag null show ?thesis by simp
qed

subsection \<open>C2: where duplicates are removed\<close>

text \<open>
  C2 as stated fails. On a successful fetch of an inventory with two records of id \<open>"42"\<close>,
  the \<open>data\<close> returned by \<open>getSophosEndpointData\<close> holds both records.
\<close>

theorem returned_data_keeps_duplicates_counterexample:
  "map_sum catchMessage (\<lambda>result. (success result, source result, map id' (data result)))
     (fst (getSophosEndpointData duplicate_env))
   = Inr (True, Api, [JStr ''42'', JStr ''42''])"
  by (simp add: duplicate_env_result duplicate_data_def)

text \<open>
  C2, amended: for every successful API fetch, the \<open>data\<close> returned by
  \<open>getSophosEndpointData\<close> is the normalisation of every raw record, in order, so records
  sharing an id are all in it. The duplicates are removed by the caller, \<open>fetchData\<close>, for
  every successful result: the list it stores for display holds exactly the records of
  \<open>data\<close> whose id no earlier record carries, in order, so it has at most one record per id;
  every other record is dropped with one logged warning naming its id and hostname.
\<close>

theorem deduplication_in_fetchData:
  assumes "fst (getSophosEndpointData env) = Inr result" and "success result"
  shows "(source result = Api \<longrightarrow>
            (\<exists>raw. fetch_sophos_endpoints env (fst (getSophosAccessToken env [])) = Inr (JArr raw)
               \<and> normalizeAll raw = Inr (data result) \<and> length (data result) = length raw)) \<and>
         st_endpoints (fst (fetchData env st)) =
           map (nth (data result))
             (filter (\<lambda>j. \<not> seenBefore (data result) j) [0..<length (data result)]) \<and>
         snd (fetchData env st) =
           map (\<lambda>j. Duplicate_endpoint_found (id' (data result ! j)) (hostname (data result ! j)))
             (filter (seenBefore (data result)) [0..<length (data result)]) \<and>
         (\<forall>i j. i < j \<and> j < length (st_endpoints (fst (fetchData env st))) \<longrightarrow>
            \<not> strict_eq (id' (st_endpoints (fst (fetchData env st)) ! i))
                        (id' (st_endpoints (fst (fetchData env st)) ! j)))"
proof -
  have a: "source result = Api \<longrightarrow>
            (\<exists>raw. fetch_sophos_endpoints env (fst (getSophosAccessToken env [])) = Inr (JArr raw)
               \<and> normalizeAll raw = Inr (data result) \<and> length (data result) = length raw)"
    using api_data_is_normalization [OF assms(1)] normalizeAll_length by blast
  note fd = fetchData_success(1,2) [OF assms, of st]
  have b: "st_endpoints (fst (fetchData env st)) =
           map (nth (data result))
             (filter (\<lambda>j. \<not> seenBefore (data result) j) [0..<length (data result)])"
    and c: "snd (fetchData env st) =
           map (\<lambda>j. Duplicate_endpoint_found (id' (data result ! j)) (hostname (data result ! j)))
             (filter (seenBefore (data result)) [0..<length (data result)])"
    unfolding fd using uniqueEndpoints_first_occurrences [of "data result"] by simp_all
  have d: "\<forall>i j. i < j \<and> j < length (st_endpoints (fst (fetchData env st))) \<longrightarrow>
            \<not> strict_eq (id' (st_endpoints (fst (fetchData env st)) ! i))
                        (id' (st_endpoints (fst (fetchData env st)) ! j))"
    unfolding fd using uniqueEndpoints_distinct_ids by blast
  from a b c d show ?thesis by simp
qed

theorem deduplication_in_fetchData_witness:
  "fst (getSophosEndpointData duplicate_env) =
     Inr \<lparr> success = True, data = duplicate_data, source = Api, error = None \<rparr> \<and>
   map hostname (st_endpoints (fst (fetchData duplicate_env initialState))) = [JStr ''HOST-A''] \<and>
   snd (fetchData duplicate_env initialState) =
     [Duplicate_endpoint_found (JStr ''42'') (JStr ''HOST-B'')]"
proof -
  let ?r = "\<lparr> success = True, data = duplicate_data, source = Api, error = None \<rparr>"
  have r: "fst (getSophosEndpointData duplicate_env) = Inr ?r" by (rule duplicate_env_result)
  have s: "success ?r" by simp
  have sb: "\<not> seenBefore duplicate_data 0" "seenBefore duplicate_data (Suc 0)"
    by (simp_all add: seenBefore_def duplicate_data_def)
  have len: "length duplicate_data = Suc (Suc 0)" by (simp add: duplicate_data_def)
  from deduplication_in_fetchData [OF r s, of initialState]
  have "st_endpoints (fst (fetchData duplicate_env initialState)) = [duplicate_data ! 0]"
    and "snd (fetchData duplicate_env initialState) =
      [Duplicate_endpoint_found (id' (duplicate_data ! Suc 0)) (hostname (duplicate_data ! Suc 0))]"
    by (simp_all add: len sb)
  then show ?thesis using r by (simp add: duplicate_data_def)
qed

subsection \<open>C3: the list the statistics are calculated from\<close>

text \<open>
  C3 holds of the list the statistics are calculated from (\<open>calculateStats_counts\<close>), but
  that list is \<open>result.data\<close>, not the deduplicated list the page displays. For the inventory
  with two online records of id \<open>"42"\<close>, the displayed list has one endpoint, which is
  online (N = 1, M = 1), and the statistics say 2 in total and 2 online.
\<close>

theorem stats_count_duplicates:
  "map hostname (st_endpoints (fst (fetchData duplicate_env initialState))) = [JStr ''HOST-A''] \<and>
   st_stats (fst (fetchData duplicate_env initialState)) =
     Some \<lparr> totalEndpoints = 2, onlineEndpoints = 2, offlineEndpoints = 0,
            healthyEndpoints = 0, warningEndpoints = 0, criticalEndpoints = 0 \<rparr>"
  by (simp add: fetchData_def duplicate_env_result duplicate_data_def uniqueEndpoints_def
      dedupStep_def calculateStats_def healthCounts_def healthStep_def Let_def initialState_def)

subsection \<open>C4: resolution of the IP addresses\<close>

text \<open>
  C4: for every raw record that is normalised, \<open>ipAddresses\<close> is the raw \<open>ipAddresses\<close>
  field if that is a non-empty list; else the raw \<open>ip_addresses\<close> field if that is a
  non-empty list; else the concatenation of \<open>ipv4Addresses\<close>, \<open>ipv6Addresses\<close>,
  \<open>ipv4_addresses\<close> and \<open>ipv6_addresses\<close> in this order, a field that is missing (or not a
  list) counting as the empty list. The witness is the record of the claim, which normalises
  to \<open>["10.0.0.1", "::1"]\<close>.
\<close>

theorem ip_resolution_order:
  assumes "normalizeItem item = Inr ep"
  shows "ipAddresses ep =
     (if \<exists>x xs. field item ''ipAddresses'' = JArr (x # xs) then elements (field item ''ipAddresses'')
      else if \<exists>y ys. field item ''ip_addresses'' = JArr (y # ys) then elements (field item ''ip_addresses'')
      else elements (field item ''ipv4Addresses'') @ elements (field item ''ipv6Addresses'')
         @ elements (field item ''ipv4_addresses'') @ elements (field item ''ipv6_addresses''))"
  unfolding normalizeItem_fields(7) [OF assms]
  by (simp add: extractIpAddresses_def nonEmptyArray_iff arrayOrEmpty_elements)

theorem ip_resolution_order_witness:
  "\<exists>ep. normalizeItem split_ip_item = Inr ep \<and> ipAddresses ep = [JStr ''10.0.0.1'', JStr ''::1'']"
proof -
  have "\<not> nullish split_ip_item" by (simp add: split_ip_item_def)
  then obtain ep where ep: "normalizeItem split_ip_item = Inr ep"
    using normalizeItem_total by blast
  have "ipAddresses ep = [JStr ''10.0.0.1'', JStr ''::1'']"
    unfolding ip_resolution_order [OF ep] by (simp add: split_ip_item_def)
  with ep show ?thesis by blast
qed

subsection \<open>C5: defaults of absent fields\<close>

text \<open>
  C5: for every raw record that is normalised, a field absent from the raw record (reading it
  gives \<open>undefined\<close>) takes its default: \<open>hostname\<close> "Unknown", \<open>os.name\<close> "Unknown OS",
  \<open>type\<close>, read from \<open>endpoint_type\<close>, "computer", \<open>online\<close> false, \<open>health.overall\<close>
  "unknown", \<open>group.name\<close> "No Group"; and none of these six fields of the canonical record is
  ever \<open>undefined\<close>.
\<close>

theorem absent_fields_take_defaults:
  assumes "normalizeItem item = Inr ep"
  shows "(field item ''hostname'' = JUndefined \<longrightarrow> hostname ep = JStr ''Unknown'') \<and>
         (field (field item ''os'') ''name'' = JUndefined \<longrightarrow> os_name (os ep) = JStr ''Unknown OS'') \<and>
         (field item ''endpoint_type'' = JUndefined \<longrightarrow> type' ep = JStr ''computer'') \<and>
         (field item ''online'' = JUndefined \<longrightarrow> online ep = JBool False) \<and>
         (field (field item ''health'') ''overall'' = JUndefined \<longrightarrow> overall (health ep) = JStr ''unknown'') \<and>
         (field (field item ''group'') ''name'' = JUndefined \<longrightarrow> group_name (group ep) = JStr ''No Group'') \<and>
         hostname ep \<noteq> JUndefined \<and> os_name (os ep) \<noteq> JUndefined \<and> type' ep \<noteq> JUndefined \<and>
         online ep \<noteq> JUndefined \<and> overall (health ep) \<noteq> JUndefined \<and> group_name (group ep) \<noteq> JUndefined"
proof -
  note f = normalizeItem_fields [OF assms]
  have d: "js_or JUndefined d = d" for d by (simp add: js_or_def)
  have 1: "field item ''hostname'' = JUndefined \<longrightarrow> hostname ep = JStr ''Unknown''"
    by (simp add: f(1) d)
  have 2: "field (field item ''os'') ''name'' = JUndefined \<longrightarrow> os_name (os ep) = JStr ''Unknown OS''"
    by (simp add: f(2) d)
  have 3: "field item ''endpoint_type'' = JUndefined \<longrightarrow> type' ep = JStr ''computer''"
    by (simp add: f(3) d)
  have 4: "field item ''online'' = JUndefined \<longrightarrow> online ep = JBool False"
    by (simp add: f(4) d)
  have 5: "field (field item ''health'') ''overall'' = JUndefined \<longrightarrow> overall (health ep) = JStr ''unknown''"
    by (simp add: f(5) d)
  have 6: "field (field item ''group'') ''name'' = JUndefined \<longrightarrow> group_name (group ep) = JStr ''No Group''"
    by (simp add: f(6) d)
  have 7: "hostname ep \<noteq> JUndefined" "os_name (os ep) \<noteq> JUndefined" "type' ep \<noteq> JUndefined"
    "overall (health ep) \<noteq> JUndefined" "group_name (group ep) \<noteq> JUndefined"
    unfolding f by (rule js_or_defined, simp)+
  have 8: "online ep \<noteq> JUndefined"
    unfolding f using truthy_defined by (auto simp: js_or_def)
  from 1 2 3 4 5 6 7 8 show ?thesis by blast
qed

theorem absent_fields_take_defaults_witness:
  "\<exists>ep. normalizeItem bare_item = Inr ep \<and> hostname ep = JStr ''Unknown'' \<and>
     os_name (os ep) = JStr ''Unknown OS'' \<and> type' ep = JStr ''computer'' \<and> online ep = JBool False \<and>
     overall (health ep) = JStr ''unknown'' \<and> group_name (group ep) = JStr ''No Group''"
proof -
  have "\<not> nullish bare_item" by (simp add: bare_item_def)
  then obtain ep where ep: "normalizeItem bare_item = Inr ep"
    using normalizeItem_total by blast
  have absent: "field bare_item ''hostname'' = JUndefined"
    "field (field bare_item ''os'') ''name'' = JUndefined"
    "field bare_item ''endpoint_type'' = JUndefined"
    "field bare_item ''online'' = JUndefined"
    "field (field bare_item ''health'') ''overall'' = JUndefined"
    "field (field bare_item ''group'') ''name'' = JUndefined"
    by (simp_all add: bare_item_def)
  from absent_fields_take_defaults [OF ep] absent have
    "hostname ep = JStr ''Unknown'' \<and>
     os_name (os ep) = JStr ''Unknown OS'' \<and> type' ep = JStr ''computer'' \<and> online ep = JBool False \<and>
     overall (health ep) = JStr ''unknown'' \<and> group_name (group ep) = JStr ''No Group''"
    by blast
  with ep show ?thesis by blast
qed

subsection \<open>C6: the force-mock flag\<close>

text \<open>
  C6: whatever the credential state, when the force-mock flag is set (the environment
  variable is the string \<open>"true"\<close>), \<open>getSophosEndpointData\<close> returns \<open>success = true\<close>,
  \<open>source = "mock"\<close> and the fixed sample dataset of 10 records, and invokes no command: no
  credential loading, no token exchange, no inventory fetch.
\<close>

theorem force_mock_short_circuit:
  assumes "NEXT_PUBLIC_USE_MOCK_DATA env = Some ''true''"
  shows "getSophosEndpointData env =
           (Inr \<lparr> success = True, data = mockEndpoints, source = Mock, error = None \<rparr>, [])
         \<and> length mockEndpoints = 10"
  using assms by (simp add: getSophosEndpointData_def mockEndpoints_def)

theorem force_mock_short_circuit_witness:
  "NEXT_PUBLIC_USE_MOCK_DATA forced_mock_env = Some ''true'' \<and>
   load_sophos_credentials forced_mock_env = Inr some_credentials \<and>
   getSophosEndpointData forced_mock_env =
     (Inr \<lparr> success = True, data = mockEndpoints, source = Mock, error = None \<rparr>, [])"
proof -
  have flag: "NEXT_PUBLIC_USE_MOCK_DATA forced_mock_env = Some ''true''"
    by (simp add: forced_mock_env_def)
  have creds: "load_sophos_credentials forced_mock_env = Inr some_credentials"
    by (simp add: forced_mock_env_def)
  from force_mock_short_circuit [OF flag] flag creds show ?thesis by simp
qed

subsection \<open>C7: nothing is thrown to the caller\<close>

text \<open>
  C7: \<open>getSophosEndpointData\<close> always returns a result to its caller and never throws. With
  the flag unset and credentials found, a failed token acquisition (the token is \<open>null\<close> or
  otherwise falsy) and a failed endpoint fetch (\<open>fetchSophosEndpoints\<close> throws) both end in
  the result with \<open>success = false\<close>, \<open>source = "mock"\<close>, the fixed mock dataset and \<open>error\<close>
  set to a message.
\<close>

theorem failures_become_fallback:
  "(\<exists>result. fst (getSophosEndpointData env) = Inr result) \<and>
   (NEXT_PUBLIC_USE_MOCK_DATA env \<noteq> Some ''true'' \<and> truthy (fst (loadSophosCredentials env [])) \<longrightarrow>
      (\<not> truthy (fst (getSophosAccessToken env [])) \<longrightarrow>
         fst (getSophosEndpointData env) =
           Inr \<lparr> success = False, data = mockEndpoints, source = Mock,
                 error = Some ''Failed to obtain access token from Sophos Central'' \<rparr>) \<and>
      (\<forall>err. truthy (fst (getSophosAccessToken env [])) \<and>
         fst (fetchSophosEndpoints env (fst (getSophosAccessToken env [])) []) = Inl err \<longrightarrow>
         fst (getSophosEndpointData env) =
           Inr \<lparr> success = False, data = mockEndpoints, source = Mock,
                 error = Some (catchMessage err) \<rparr>))"
proof -
  obtain c tr1 where l: "loadSophosCredentials env [] = (c, tr1)"
    by (cases "loadSophosCredentials env []")
  obtain a tr2 where t: "getSophosAccessToken env tr1 = (a, tr2)"
    by (cases "getSophosAccessToken env tr1")
  obtain r tr3 where f: "fetchSophosEndpoints env a tr2 = (r, tr3)"
    by (cases "fetchSophosEndpoints env a tr2")
  have a: "fst (getSophosAccessToken env []) = a"
    using getSophosAccessToken_fst [of env tr1] t by simp
  have r: "fst (fetchSophosEndpoints env a []) = r"
    using fetchSophosEndpoints_fst [of env a tr2] f by simp
  have 1: "\<exists>result. fst (getSophosEndpointData env) = Inr result"
    using l t f by (cases r) (simp_all add: getSophosEndpointData_def tryFetchFromApi_def Let_def)
  have 2: "fst (getSophosEndpointData env) =
           Inr \<lparr> success = False, data = mockEndpoints, source = Mock,
                 error = Some ''Failed to obtain access token from Sophos Central'' \<rparr>"
    if "NEXT_PUBLIC_USE_MOCK_DATA env \<noteq> Some ''true''" "truthy c" "\<not> truthy a"
    using that l t by (simp add: getSophosEndpointData_def tryFetchFromApi_def Let_def)
  have 3: "fst (getSophosEndpointData env) =
           Inr \<lparr> success = False, data = mockEndpoints, source = Mock,
                 error = Some (catchMessage err) \<rparr>"
    if "NEXT_PUBLIC_USE_MOCK_DATA env \<noteq> Some ''true''" "truthy c" "truthy a" "r = Inl err" for err
    using that l t f by (simp add: getSophosEndpointData_def tryFetchFromApi_def Let_def)
  from l have c: "fst (loadSophosCredentials env []) = c" by simp
  show ?thesis unfolding a r c using 1 2 3 by blast
qed

theorem failures_become_fallback_witness:
  "fst (getSophosEndpointData no_token_env) =
     Inr \<lparr> success = False, data = mockEndpoints, source = Mock,
           error = Some ''Failed to obtain access token from Sophos Central'' \<rparr> \<and>
   fst (getSophosEndpointData fetch_fails_env) =
     Inr \<lparr> success = False, data = mockEndpoints, source = Mock,
           error = Some ''Unknown error occurred while fetching from Sophos API'' \<rparr>"
proof -
  have n1: "NEXT_PUBLIC_USE_MOCK_DATA no_token_env \<noteq> Some ''true''"
    and n2: "truthy (fst (loadSophosCredentials no_token_env []))"
    and n3: "\<not> truthy (fst (getSophosAccessToken no_token_env []))"
    by (simp_all add: no_token_env_def loadSophosCredentials_def getSophosAccessToken_def
        some_credentials_def)
  have f1: "NEXT_PUBLIC_USE_MOCK_DATA fetch_fails_env \<noteq> Some ''true''"
    and f2: "truthy (fst (loadSophosCredentials fetch_fails_env []))"
    and f3: "truthy (fst (getSophosAccessToken fetch_fails_env []))"
    and f4: "fst (fetchSophosEndpoints fetch_fails_env (fst (getSophosAccessToken fetch_fails_env [])) [])
              = Inl (JsRejected (JStr ''API request failed: 500''))"
    by (simp_all add: fetch_fails_env_def loadSophosCredentials_def getSophosAccessToken_def
        some_credentials_def fetchSophosEndpoints_def)
  from failures_become_fallback [of no_token_env] n1 n2 n3
  have a: "fst (getSophosEndpointData no_token_env) =
     Inr \<lparr> success = False, data = mockEndpoints, source = Mock,
           error = Some ''Failed to obtain access token from Sophos Central'' \<rparr>"
    by blast
  from failures_become_fallback [of fetch_fails_env] f1 f2 f3 f4
  have b: "fst (getSophosEndpointData fetch_fails_env) =
     Inr \<lparr> success = False, data = mockEndpoints, source = Mock,
           error = Some (catchMessage (JsRejected (JStr ''API request failed: 500''))) \<rparr>"
    by blast
  from a b show ?thesis by simp
qed

subsection \<open>C8: normalising the same raw record twice\<close>

text \<open>
  C8: two calls of the normalisation on the same raw record give identical canonical records.
  The normalisation is the callback of \<open>rawEndpoints.map\<close>. Its result is fixed by the
  properties of the raw record that it reads: whichever inventories the two calls belong to
  and whichever positions the records have in them, two raw records that agree on these
  properties (the same raw record above all) are given identical canonical records, and the
  canonical record carries the id of the raw record.
\<close>

theorem normalization_deterministic:
  assumes "normalizeAll items1 = Inr eps1" and "normalizeAll items2 = Inr eps2"
    and "i < length items1" and "j < length items2"
    and "\<forall>k\<in>set readFields. field (items1 ! i) k = field (items2 ! j) k"
  shows "eps1 ! i = eps2 ! j \<and> id' (eps1 ! i) = field (items1 ! i) ''id''"
proof -
  have 1: "normalizeItem (items1 ! i) = Inr (eps1 ! i)"
    by (rule normalizeAll_nth [OF assms(1,3)])
  have 2: "normalizeItem (items2 ! j) = Inr (eps2 ! j)"
    by (rule normalizeAll_nth [OF assms(2,4)])
  have "normalizeItem (items1 ! i) = normalizeItem (items2 ! j)"
    using normalizeItem_not_nullish [OF 1] normalizeItem_not_nullish [OF 2] assms(5)
    by (rule normalizeItem_reads_only)
  with 1 2 have "eps1 ! i = eps2 ! j" by simp
  moreover have "id' (eps1 ! i) = field (items1 ! i) ''id''"
    by (rule normalizeItem_id [OF 1])
  ultimately show ?thesis by simp
qed

theorem normalization_deterministic_witness:
  "\<exists>eps1 eps2 eps3. normalizeAll [split_ip_item, bare_item] = Inr eps1 \<and>
     normalizeAll [bare_item] = Inr eps2 \<and> normalizeAll [bare_item_extra] = Inr eps3 \<and>
     eps1 ! 1 = eps2 ! 0 \<and> id' (eps1 ! 1) = JStr ''e-2'' \<and> eps1 ! 1 = eps3 ! 0"
proof -
  have "\<forall>item\<in>set [split_ip_item, bare_item]. \<not> nullish item"
    by (simp add: split_ip_item_def bare_item_def)
  then obtain eps1 where 1: "normalizeAll [split_ip_item, bare_item] = Inr eps1"
    using normalizeAll_total by blast
  have "\<forall>item\<in>set [bare_item]. \<not> nullish item"
    by (simp add: bare_item_def)
  then obtain eps2 where 2: "normalizeAll [bare_item] = Inr eps2"
    using normalizeAll_total by blast
  have "\<forall>item\<in>set [bare_item_extra]. \<not> nullish item"
    by (simp add: bare_item_extra_def)
  then obtain eps3 where 3: "normalizeAll [bare_item_extra] = Inr eps3"
    using normalizeAll_total by blast
  have same: "\<forall>k\<in>set readFields. field ([split_ip_item, bare_item] ! 1) k = field ([bare_item] ! 0) k"
    by simp
  have agree: "\<forall>k\<in>set readFields. field ([split_ip_item, bare_item] ! 1) k = field ([bare_item_extra] ! 0) k"
    by (simp add: readFields_def bare_item_def bare_item_extra_def)
  have both: "eps1 ! 1 = eps2 ! 0 \<and> id' (eps1 ! 1) = field ([split_ip_item, bare_item] ! 1) ''id''"
    by (rule normalization_deterministic [OF 1 2 _ _ same]) simp_all
  have other: "eps1 ! 1 = eps3 ! 0 \<and> id' (eps1 ! 1) = field ([split_ip_item, bare_item] ! 1) ''id''"
    by (rule normalization_deterministic [OF 1 3 _ _ agree]) simp_all
  have raw_id: "field ([split_ip_item, bare_item] ! 1) ''id'' = JStr ''e-2''"
    by (simp add: bare_item_def)
  from both have a: "eps1 ! 1 = eps2 ! 0" by (rule conjunct1)
  from both have "id' (eps1 ! 1) = field ([split_ip_item, bare_item] ! 1) ''id''" by (rule conjunct2)
  then have b: "id' (eps1 ! 1) = JStr ''e-2''" using raw_id by (rule trans)
  from other have c: "eps1 ! 1 = eps3 ! 0" by (rule conjunct1)
  from 1 2 3 a b c show ?thesis by blast
qed

subsection \<open>C9: falsy values that are present\<close>

text \<open>
  C9: the defaults also replace falsy values that are present. For every raw record that is
  normalised, an empty-string \<open>hostname\<close> becomes "Unknown", an empty-string \<open>os.name\<close>
  "Unknown OS", an empty-string \<open>group.name\<close> "No Group", an empty-string \<open>endpoint_type\<close>
  "computer", and a falsy \<open>online\<close> (false, 0, null, undefined, the empty string) becomes
  false.
\<close>

theorem falsy_values_coerced:
  assumes "normalizeItem item = Inr ep"
  shows "(field item ''hostname'' = JStr '''' \<longrightarrow> hostname ep = JStr ''Unknown'') \<and>
         (field (field item ''os'') ''name'' = JStr '''' \<longrightarrow> os_name (os ep) = JStr ''Unknown OS'') \<and>
         (field (field item ''group'') ''name'' = JStr '''' \<longrightarrow> group_name (group ep) = JStr ''No Group'') \<and>
         (field item ''endpoint_type'' = JStr '''' \<longrightarrow> type' ep = JStr ''computer'') \<and>
         (field item ''online'' \<in> {JBool False, JNum 0, JNull, JUndefined, JStr ''''} \<longrightarrow>
            online ep = JBool False) \<and>
         (\<not> truthy (field item ''online'') \<longrightarrow> online ep = JBool False)"
proof -
  note f = normalizeItem_fields [OF assms]
  have d: "js_or (JStr []) d = d" for d by (simp add: js_or_def)
  have 1: "field item ''hostname'' = JStr '''' \<longrightarrow> hostname ep = JStr ''Unknown''"
    by (simp add: f(1) d)
  have 2: "field (field item ''os'') ''name'' = JStr '''' \<longrightarrow> os_name (os ep) = JStr ''Unknown OS''"
    by (simp add: f(2) d)
  have 3: "field (field item ''group'') ''name'' = JStr '''' \<longrightarrow> group_name (group ep) = JStr ''No Group''"
    by (simp add: f(6) d)
  have 4: "field item ''endpoint_type'' = JStr '''' \<longrightarrow> type' ep = JStr ''computer''"
    by (simp add: f(3) d)
  have 6: "\<not> truthy (field item ''online'') \<longrightarrow> online ep = JBool False"
    by (simp add: f(4) js_or_falsy)
  have "\<not> truthy v" if "v \<in> {JBool False, JNum 0, JNull, JUndefined, JStr ''''}" for v
    using that by auto
  with 6 have 5: "field item ''online'' \<in> {JBool False, JNum 0, JNull, JUndefined, JStr ''''} \<longrightarrow>
      online ep = JBool False"
    by blast
  from 1 2 3 4 5 6 show ?thesis by blast
qed

theorem falsy_values_coerced_witness:
  "\<exists>ep. normalizeItem falsy_item = Inr ep \<and> hostname ep = JStr ''Unknown'' \<and>
     os_name (os ep) = JStr ''Unknown OS'' \<and> group_name (group ep) = JStr ''No Group'' \<and>
     type' ep = JStr ''computer'' \<and> online ep = JBool False"
proof -
  have "\<not> nullish falsy_item" by (simp add: falsy_item_def)
  then obtain ep where ep: "normalizeItem falsy_item = Inr ep"
    using normalizeItem_total by blast
  have falsy: "field falsy_item ''hostname'' = JStr ''''"
    "field (field falsy_item ''os'') ''name'' = JStr ''''"
    "field (field falsy_item ''group'') ''name'' = JStr ''''"
    "field falsy_item ''endpoint_type'' = JStr ''''"
    "field falsy_item ''online'' \<in> {JBool False, JNum 0, JNull, JUndefined, JStr ''''}"
    by (simp_all add: falsy_item_def)
  from falsy_values_coerced [OF ep] falsy have
    "hostname ep = JStr ''Unknown'' \<and>
     os_name (os ep) = JStr ''Unknown OS'' \<and> group_name (group ep) = JStr ''No Group'' \<and>
     type' ep = JStr ''computer'' \<and> online ep = JBool False"
    by blast
  with ep show ?thesis by blast
qed

subsection \<open>C10: the health buckets\<close>

text \<open>
  C10: for every endpoint list, each of the three health counts is the number of endpoints
  whose \<open>health.overall\<close> is "good", "warning" and "critical" respectively, so an endpoint
  with any other value ("unknown" among them) is counted in none; the three counts add up to
  at most \<open>totalEndpoints\<close>, and to less exactly when some endpoint's \<open>health.overall\<close> is
  none of the three values.
\<close>

theorem health_buckets:
  "healthyEndpoints (calculateStats xs) = int (length (filter (\<lambda>e. overall (health e) = JStr ''good'') xs)) \<and>
   warningEndpoints (calculateStats xs) = int (length (filter (\<lambda>e. overall (health e) = JStr ''warning'') xs)) \<and>
   criticalEndpoints (calculateStats xs) = int (length (filter (\<lambda>e. overall (health e) = JStr ''critical'') xs)) \<and>
   healthyEndpoints (calculateStats xs) + warningEndpoints (calculateStats xs) + criticalEndpoints (calculateStats xs)
     \<le> totalEndpoints (calculateStats xs) \<and>
   (healthyEndpoints (calculateStats xs) + warningEndpoints (calculateStats xs) + criticalEndpoints (calculateStats xs)
     < totalEndpoints (calculateStats xs)
    \<longleftrightarrow> (\<exists>e\<in>set xs. overall (health e) \<notin> {JStr ''good'', JStr ''warning'', JStr ''critical''}))"
proof -
  let ?g = "length (filter (\<lambda>e. overall (health e) = JStr ''good'') xs)"
  let ?w = "length (filter (\<lambda>e. overall (health e) = JStr ''warning'') xs)"
  let ?c = "length (filter (\<lambda>e. overall (health e) = JStr ''critical'') xs)"
  let ?o = "length (filter (\<lambda>e. overall (health e) \<notin> {JStr ''good'', JStr ''warning'', JStr ''critical''}) xs)"
  have hc: "healthyEndpoints (calculateStats xs) = int ?g"
       "warningEndpoints (calculateStats xs) = int ?w"
       "criticalEndpoints (calculateStats xs) = int ?c"
    using healthCounts_foldl [of "\<lparr> healthy = 0, warning = 0, critical = 0 \<rparr>" xs]
    by (simp_all add: calculateStats_def healthCounts_def Let_def)
  have tot: "totalEndpoints (calculateStats xs) = int (length xs)"
    by (simp add: calculateStats_def Let_def)
  have part: "?g + ?w + ?c + ?o = length xs" by (rule bucket_partition)
  have pos: "(0 < ?o) = (\<exists>e\<in>set xs. overall (health e) \<notin> {JStr ''good'', JStr ''warning'', JStr ''critical''})"
    by (rule filter_pos)
  show ?thesis unfolding hc tot using part pos by linarith
qed

theorem health_buckets_witness:
  "(\<exists>e\<in>set duplicate_data. overall (health e) \<notin> {JStr ''good'', JStr ''warning'', JStr ''critical''}) \<and>
   healthyEndpoints (calculateStats duplicate_data) + warningEndpoints (calculateStats duplicate_data)
     + criticalEndpoints (calculateStats duplicate_data) < totalEndpoints (calculateStats duplicate_data) \<and>
   (\<not> (\<exists>e\<in>set mockEndpoints. overall (health e) \<notin> {JStr ''good'', JStr ''warning'', JStr ''critical''})) \<and>
   healthyEndpoints (calculateStats mockEndpoints) + warningEndpoints (calculateStats mockEndpoints)
     + criticalEndpoints (calculateStats mockEndpoints) = totalEndpoints (calculateStats mockEndpoints)"
proof -
  have u: "\<exists>e\<in>set duplicate_data. overall (health e) \<notin> {JStr ''good'', JStr ''warning'', JStr ''critical''}"
    by (simp add: duplicate_data_def)
  have m: "\<not> (\<exists>e\<in>set mockEndpoints. overall (health e) \<notin> {JStr ''good'', JStr ''warning'', JStr ''critical''})"
    by (simp add: mockEndpoints_def)
  from health_buckets [of duplicate_data] u
  have 1: "healthyEndpoints (calculateStats duplicate_data) + warningEndpoints (calculateStats duplicate_data)
     + criticalEndpoints (calculateStats duplicate_data) < totalEndpoints (calculateStats duplicate_data)"
    by blast
  from health_buckets [of mockEndpoints] m
  have 2: "healthyEndpoints (calculateStats mockEndpoints) + warningEndpoints (calculateStats mockEndpoints)
     + criticalEndpoints (calculateStats mockEndpoints) = totalEndpoints (calculateStats mockEndpoints)"
    by linarith
  from u 1 m 2 show ?thesis by blast
qed

end
